theory Spec2Isabelle
  imports Main "HOL-Library.Word"
begin

section \<open>The header \<open>ixy.h\<close>\<close>

text \<open>
  \<open>src/memory/src/ixy/c/ixy.h\<close> declares three JNI functions and defines none. The
  header is embedded as the list of its lines, in file order; the preprocessor and the
  part of a C or C++ front end that decides linkage run over that list.
\<close>

datatype ctype = Named string | Ptr ctype

text \<open>
  One prototype of the form \<open>JNIEXPORT ret JNICALL name(params);\<close>. The two flags record
  that the macros \<open>JNIEXPORT\<close> and \<open>JNICALL\<close> are written on the prototype.
\<close>

record fundecl =
  jniexport :: bool
  ret :: ctype
  jnicall :: bool
  name :: string
  params :: "ctype list"

datatype line =
    PragmaOnce
  | Include string
  | Ifdef string
  | Endif
  | ExternC_open
  | Block_close
  | Decl fundecl

text \<open>
  All three prototypes have the same shape, \<open>JNIEXPORT r JNICALL n(JNIEnv *, jclass);\<close>,
  and differ in the return type and the name only.
\<close>

definition jni_proto :: "ctype \<Rightarrow> string \<Rightarrow> fundecl" where
  "jni_proto r n =
     \<lparr>jniexport = True, ret = r, jnicall = True, name = n,
      params = [Ptr (Named ''JNIEnv''), Named ''jclass'']\<rparr>"

definition ixy_h :: "line list" where
  "ixy_h =
     [PragmaOnce,
      Include ''jni.h'',
      Ifdef ''__cplusplus'',
      ExternC_open,
      Endif,
      Decl (jni_proto (Named ''jint'') ''Java_de_tum_in_net_ixy_memory_MemoryUtils_c_1pagesize''),
      Decl (jni_proto (Named ''jint'') ''Java_de_tum_in_net_ixy_memory_MemoryUtils_c_1addrsize''),
      Decl (jni_proto (Named ''jlong'') ''Java_de_tum_in_net_ixy_memory_MemoryUtils_c_1hugepage''),
      Ifdef ''__cplusplus'',
      Block_close,
      Endif]"

subsection \<open>Preprocessing\<close>

text \<open>
  Conditional inclusion. \<open>D\<close> holds the defined macros; the counter is the number of
  conditional groups open since skipping began, 0 while lines are kept. Directives
  are consumed. The text that \<open>#include <jni.h>\<close> would splice in is not part of the
  repository: the names it provides are kept as names.
\<close>

fun cpp :: "string list \<Rightarrow> nat \<Rightarrow> line list \<Rightarrow> line list" where
  "cpp D k [] = []"
| "cpp D 0 (Ifdef m # ls) = (if m \<in> set D then cpp D 0 ls else cpp D (Suc 0) ls)"
| "cpp D (Suc k) (Ifdef m # ls) = cpp D (Suc (Suc k)) ls"
| "cpp D 0 (Endif # ls) = cpp D 0 ls"
| "cpp D (Suc k) (Endif # ls) = cpp D k ls"
| "cpp D 0 (PragmaOnce # ls) = cpp D 0 ls"
| "cpp D 0 (Include f # ls) = cpp D 0 ls"
| "cpp D 0 (l # ls) = l # cpp D 0 ls"
| "cpp D (Suc k) (l # ls) = cpp D (Suc k) ls"

subsection \<open>Linkage\<close>

datatype lang = C | Cxx

datatype linkage = C_linkage | Cxx_linkage

definition predefined :: "lang \<Rightarrow> string list" where
  "predefined L = (case L of C \<Rightarrow> [] | Cxx \<Rightarrow> [''__cplusplus''])"

definition default_linkage :: "lang \<Rightarrow> linkage" where
  "default_linkage L = (case L of C \<Rightarrow> C_linkage | Cxx \<Rightarrow> Cxx_linkage)"

text \<open>
  The front end walks the preprocessed lines with a stack of linkage specifications.
  \<open>extern "C" {\<close> is C++ only: a C compiler rejects it, which is \<open>None\<close>. A closing
  brace with no open block, a block still open at the end of the file and a directive
  left over by the preprocessor are errors as well.
\<close>

fun elaborate :: "lang \<Rightarrow> linkage list \<Rightarrow> line list \<Rightarrow> (linkage \<times> fundecl) list option" where
  "elaborate L st [] = (case st of [_] \<Rightarrow> Some [] | _ \<Rightarrow> None)"
| "elaborate L st (Decl d # ls) =
     (case st of
        [] \<Rightarrow> None
      | lk # _ \<Rightarrow> map_option ((#) (lk, d)) (elaborate L st ls))"
| "elaborate L st (ExternC_open # ls) =
     (case L of C \<Rightarrow> None | Cxx \<Rightarrow> elaborate L (C_linkage # st) ls)"
| "elaborate L st (Block_close # ls) =
     (case st of _ # lk # st' \<Rightarrow> elaborate L (lk # st') ls | _ \<Rightarrow> None)"
| "elaborate L st (_ # ls) = None"

definition compile :: "lang \<Rightarrow> line list \<Rightarrow> (linkage \<times> fundecl) list option" where
  "compile L hdr = elaborate L [default_linkage L] (cpp (predefined L) 0 hdr)"

text \<open>
  The name a declaration has in the object file's symbol table. With C linkage it is
  the identifier; with C++ linkage it is whatever the compiler's mangling scheme makes
  of the declaration, which is taken as a parameter.
\<close>

definition symbol :: "(fundecl \<Rightarrow> string) \<Rightarrow> linkage \<times> fundecl \<Rightarrow> string" where
  "symbol mangle ld =
     (case fst ld of C_linkage \<Rightarrow> name (snd ld) | Cxx_linkage \<Rightarrow> mangle (snd ld))"

definition exported_symbols ::
    "(fundecl \<Rightarrow> string) \<Rightarrow> lang \<Rightarrow> line list \<Rightarrow> string list option" where
  "exported_symbols mangle L hdr =
     map_option (\<lambda>ds. map (symbol mangle) (filter (\<lambda>ld. jniexport (snd ld)) ds))
       (compile L hdr)"

subsection \<open>The native-method naming scheme of the host runtime\<close>

text \<open>
  The Java runtime looks a native method up under the name \<open>Java_\<close>, the escaped fully
  qualified class name, \<open>_\<close>, the escaped method name. Escaping maps the separator of
  the class path to \<open>_\<close>, the characters \<open>_\<close>, \<open>;\<close> and \<open>[\<close> to \<open>_1\<close>, \<open>_2\<close> and
  \<open>_3\<close>, leaves ASCII letters and digits alone and writes any other character as
  \<open>_0\<close> and its code in four lower-case hexadecimal digits. The scheme belongs to the
  runtime, not to the repository; the header's identifiers are compared with it.
\<close>

definition is_alnum :: "char \<Rightarrow> bool" where
  "is_alnum c =
     (let n = (of_char c :: nat)
      in (48 \<le> n \<and> n \<le> 57) \<or> (65 \<le> n \<and> n \<le> 90) \<or> (97 \<le> n \<and> n \<le> 122))"

definition hex_digit :: "nat \<Rightarrow> char" where
  "hex_digit n = ''0123456789abcdef'' ! (n mod 16)"

definition hex4 :: "nat \<Rightarrow> string" where
  "hex4 n =
     [hex_digit (n div 4096), hex_digit (n div 256), hex_digit (n div 16), hex_digit n]"

definition jni_escape :: "char \<Rightarrow> string" where
  "jni_escape c =
     (if c = CHR ''.'' \<or> c = CHR ''/'' then ''_''
      else if c = CHR ''_'' then ''_1''
      else if c = CHR '';'' then ''_2''
      else if c = CHR ''['' then ''_3''
      else if is_alnum c then [c]
      else ''_0'' @ hex4 (of_char c))"

definition jni_mangle :: "string \<Rightarrow> string" where
  "jni_mangle s = concat (map jni_escape s)"

definition jni_symbol :: "string \<Rightarrow> string \<Rightarrow> string" where
  "jni_symbol cls meth = ''Java_'' @ jni_mangle cls @ ''_'' @ jni_mangle meth"

text \<open>
  What the runtime's lookup finds in a library's symbol table for a native method of a
  class: the symbol of that name, if the table has one.
\<close>

definition jni_lookup :: "string list \<Rightarrow> string \<Rightarrow> string \<Rightarrow> string option" where
  "jni_lookup syms cls meth = find (\<lambda>s. s = jni_symbol cls meth) syms"

subsection \<open>The integer types of \<open>jni.h\<close>\<close>

text \<open>
  \<open>jint\<close> and \<open>jlong\<close> are typedefs of \<open>jni.h\<close>, which the header includes and the
  repository does not contain. A table of typedefs, from a type name to the width and
  signedness of the integer type it stands for, is therefore a parameter of every
  statement about them.
\<close>

record c_int =
  bits :: nat
  is_signed :: bool

type_synonym typedefs = "string \<Rightarrow> c_int option"

definition int_min :: "c_int \<Rightarrow> int" where
  "int_min t = (if is_signed t then - (2 ^ (bits t - 1)) else 0)"

definition int_max :: "c_int \<Rightarrow> int" where
  "int_max t = (if is_signed t then 2 ^ (bits t - 1) - 1 else 2 ^ bits t - 1)"

definition representable :: "c_int \<Rightarrow> int \<Rightarrow> bool" where
  "representable t v = (int_min t \<le> v \<and> v \<le> int_max t)"

definition ret_int :: "typedefs \<Rightarrow> fundecl \<Rightarrow> c_int option" where
  "ret_int td d = (case ret d of Named n \<Rightarrow> td n | Ptr _ \<Rightarrow> None)"

definition ret_bits :: "typedefs \<Rightarrow> fundecl \<Rightarrow> nat option" where
  "ret_bits td d = map_option bits (ret_int td d)"

definition can_return :: "typedefs \<Rightarrow> fundecl \<Rightarrow> int \<Rightarrow> bool" where
  "can_return td d v = (case ret_int td d of None \<Rightarrow> False | Some t \<Rightarrow> representable t v)"

text \<open>
  The table as the Java Native Interface fixes it on every platform: \<open>jint\<close> is a
  signed 32-bit integer and \<open>jlong\<close> a signed 64-bit integer. It is the instance at
  which the parameterised statements are exercised.
\<close>

definition jni_md :: typedefs where
  "jni_md n =
     (if n = ''jint'' then Some \<lparr>bits = 32, is_signed = True\<rparr>
      else if n = ''jlong'' then Some \<lparr>bits = 64, is_signed = True\<rparr>
      else None)"

section \<open>The address-size query\<close>

text \<open>
  The header gives the three functions a name and a signature; the C file that defines
  them is not part of the sources at hand. What the address-size query computes is
  modelled from the specification, over the build target and the host configuration
  the queries are about.
\<close>

text \<open>
  Modelled from the spec: the build target, missing with the implementation. The
  address size is the pointer width in bytes, 4 for a 32-bit build and 8 for a 64-bit
  build.
\<close>

datatype build = Build32 | Build64

fun pointer_bytes :: "build \<Rightarrow> nat" where
  "pointer_bytes Build32 = 4"
| "pointer_bytes Build64 = 8"

text \<open>
  Modelled from the spec: the host configuration the queries report, missing with the
  implementation. The page size is the granularity the operating system reports; the
  huge-page size is present when huge pages are supported and configured.
\<close>

record host =
  target :: build
  os_page_size :: nat
  huge_page_size :: "nat option"

type_synonym jint = "32 word"

text \<open>
  Modelled from the spec: the body of \<open>c_addrsize\<close>, which is not under \<open>src/\<close>. It
  returns the number of bytes of a native pointer of the build target.
\<close>

definition c_addrsize :: "host \<Rightarrow> jint" where
  "c_addrsize h = of_nat (pointer_bytes (target h))"

section \<open>Properties of the header\<close>

lemma cpp_ixy_h_C:
  "cpp [] 0 ixy_h =
     [Decl (jni_proto (Named ''jint'') ''Java_de_tum_in_net_ixy_memory_MemoryUtils_c_1pagesize''),
      Decl (jni_proto (Named ''jint'') ''Java_de_tum_in_net_ixy_memory_MemoryUtils_c_1addrsize''),
      Decl (jni_proto (Named ''jlong'') ''Java_de_tum_in_net_ixy_memory_MemoryUtils_c_1hugepage'')]"
  by (simp add: ixy_h_def)

lemma cpp_ixy_h_Cxx:
  "cpp [''__cplusplus''] 0 ixy_h =
     [ExternC_open,
      Decl (jni_proto (Named ''jint'') ''Java_de_tum_in_net_ixy_memory_MemoryUtils_c_1pagesize''),
      Decl (jni_proto (Named ''jint'') ''Java_de_tum_in_net_ixy_memory_MemoryUtils_c_1addrsize''),
      Decl (jni_proto (Named ''jlong'') ''Java_de_tum_in_net_ixy_memory_MemoryUtils_c_1hugepage''),
      Block_close]"
  by (simp add: ixy_h_def)

text \<open>
  In C and in C++ alike the header is accepted and yields the same three declarations,
  each with C linkage.
\<close>

lemma compile_ixy_h:
  "compile L ixy_h =
     Some
       [(C_linkage,
         jni_proto (Named ''jint'') ''Java_de_tum_in_net_ixy_memory_MemoryUtils_c_1pagesize''),
        (C_linkage,
         jni_proto (Named ''jint'') ''Java_de_tum_in_net_ixy_memory_MemoryUtils_c_1addrsize''),
        (C_linkage,
         jni_proto (Named ''jlong'') ''Java_de_tum_in_net_ixy_memory_MemoryUtils_c_1hugepage'')]"
proof (cases L)
  case C
  then show ?thesis
    by (simp add: compile_def predefined_def default_linkage_def cpp_ixy_h_C)
next
  case Cxx
  then show ?thesis
    by (simp add: compile_def predefined_def default_linkage_def cpp_ixy_h_Cxx)
qed

text \<open>
  The guard and the block both matter. A C compiler that met the \<open>extern "C"\<close> block
  without its \<open>#ifdef\<close> guard would reject the header, and a C++ compiler that did not
  meet the block would export whatever its mangling scheme produces.
\<close>

lemma unguarded_block_rejected_by_C:
  "compile C (filter (\<lambda>l. l \<noteq> Ifdef ''__cplusplus'' \<and> l \<noteq> Endif) ixy_h) = None"
  by (simp add: compile_def predefined_def default_linkage_def ixy_h_def)

lemma without_block_mangled_by_Cxx:
  "exported_symbols mangle Cxx (filter (\<lambda>l. l \<noteq> ExternC_open \<and> l \<noteq> Block_close) ixy_h) =
     Some
       [mangle (jni_proto (Named ''jint'')
          ''Java_de_tum_in_net_ixy_memory_MemoryUtils_c_1pagesize''),
        mangle (jni_proto (Named ''jint'')
          ''Java_de_tum_in_net_ixy_memory_MemoryUtils_c_1addrsize''),
        mangle (jni_proto (Named ''jlong'')
          ''Java_de_tum_in_net_ixy_memory_MemoryUtils_c_1hugepage'')]"
  by (simp add: exported_symbols_def compile_def predefined_def default_linkage_def ixy_h_def
        symbol_def jni_proto_def)


text \<open>
  C2. The page-size and the address-size query are declared with the return type
  \<open>jint\<close> and the huge-page query with \<open>jlong\<close>; under any \<open>jni.h\<close> that makes
  \<open>jint\<close> 32 bits and \<open>jlong\<close> 64 bits wide, the result of \<open>c_1pagesize\<close> is 32
  bits wide, that of \<open>c_1addrsize\<close> 32 bits and that of \<open>c_1hugepage\<close> 64 bits. Each
  width is stated with the name of the entry point it belongs to.
\<close>

theorem return_widths:
  assumes "map_option bits (td ''jint'') = Some 32"
      and "map_option bits (td ''jlong'') = Some 64"
  shows "map_option (map (\<lambda>ld. (name (snd ld), ret (snd ld), ret_bits td (snd ld))))
           (compile L ixy_h) =
         Some [(''Java_de_tum_in_net_ixy_memory_MemoryUtils_c_1pagesize'',
                  Named ''jint'', Some 32),
               (''Java_de_tum_in_net_ixy_memory_MemoryUtils_c_1addrsize'',
                  Named ''jint'', Some 32),
               (''Java_de_tum_in_net_ixy_memory_MemoryUtils_c_1hugepage'',
                  Named ''jlong'', Some 64)]
       \<and> map_option (map (\<lambda>ld. ret (snd ld))) (compile L ixy_h) =
           Some [Named ''jint'', Named ''jint'', Named ''jlong'']
       \<and> map_option (map (\<lambda>ld. ret_bits td (snd ld))) (compile L ixy_h) =
           Some [Some 32, Some 32, Some 64]"
  using assms by (simp add: compile_ixy_h jni_proto_def ret_bits_def ret_int_def)

theorem return_widths_witness:
  "map_option bits (jni_md ''jint'') = Some 32
   \<and> map_option bits (jni_md ''jlong'') = Some 64
   \<and> map_option (map (\<lambda>ld. (name (snd ld), ret (snd ld), ret_bits jni_md (snd ld))))
        (compile Cxx ixy_h) =
       Some [(''Java_de_tum_in_net_ixy_memory_MemoryUtils_c_1pagesize'',
                Named ''jint'', Some 32),
             (''Java_de_tum_in_net_ixy_memory_MemoryUtils_c_1addrsize'',
                Named ''jint'', Some 32),
             (''Java_de_tum_in_net_ixy_memory_MemoryUtils_c_1hugepage'',
                Named ''jlong'', Some 64)]"
proof -
  have a: "map_option bits (jni_md ''jint'') = Some 32"
    and b: "map_option bits (jni_md ''jlong'') = Some 64"
    by (simp_all add: jni_md_def)
  from return_widths [OF a b, of Cxx] a b show ?thesis by simp
qed

text \<open>
  C8. In C and in C++ every entry point has C linkage, so the exported names do not
  depend on the C++ mangling scheme: they are the identifiers of the header. A lookup by
  the name the runtime derives from the class \<open>de.tum.in.net.ixy.memory.MemoryUtils\<close>
  and each of the three method names finds exactly the corresponding exported symbol.
\<close>

theorem entry_points_c_linkage:
  "map_option (map fst) (compile L ixy_h) = Some [C_linkage, C_linkage, C_linkage]
   \<and> exported_symbols mangle L ixy_h =
       map_option (map (\<lambda>ld. name (snd ld))) (compile L ixy_h)
   \<and> map_option
        (\<lambda>syms. map (jni_lookup syms ''de.tum.in.net.ixy.memory.MemoryUtils'')
                  [''c_pagesize'', ''c_addrsize'', ''c_hugepage''])
        (exported_symbols mangle L ixy_h) =
       map_option (map Some) (exported_symbols mangle L ixy_h)"
  by (simp add: exported_symbols_def compile_ixy_h jni_proto_def symbol_def
        jni_lookup_def jni_symbol_def jni_mangle_def jni_escape_def is_alnum_def)

text \<open>
  C9. The exported symbols are exactly the three names below. They are the names the
  runtime's scheme gives to the methods \<open>c_pagesize\<close>, \<open>c_addrsize\<close> and
  \<open>c_hugepage\<close> of the one class \<open>de.tum.in.net.ixy.memory.MemoryUtils\<close>, and the
  underscore of each method name appears in the symbol as \<open>_1\<close>.
\<close>

theorem exported_symbol_names:
  "exported_symbols mangle L ixy_h =
     Some [''Java_de_tum_in_net_ixy_memory_MemoryUtils_c_1pagesize'',
           ''Java_de_tum_in_net_ixy_memory_MemoryUtils_c_1addrsize'',
           ''Java_de_tum_in_net_ixy_memory_MemoryUtils_c_1hugepage'']
   \<and> exported_symbols mangle L ixy_h =
     Some (map (jni_symbol ''de.tum.in.net.ixy.memory.MemoryUtils'')
            [''c_pagesize'', ''c_addrsize'', ''c_hugepage''])
   \<and> map jni_mangle [''c_pagesize'', ''c_addrsize'', ''c_hugepage''] =
       [''c_1pagesize'', ''c_1addrsize'', ''c_1hugepage'']"
  by (simp add: exported_symbols_def compile_ixy_h jni_proto_def symbol_def
        jni_symbol_def jni_mangle_def jni_escape_def is_alnum_def)

text \<open>
  C10. Under any \<open>jni.h\<close> that makes \<open>jint\<close> a signed 32-bit and \<open>jlong\<close> a signed
  64-bit integer, the return type of every entry point is signed and its least value is
  negative (\<open>- 2 ^ 31\<close>, \<open>- 2 ^ 31\<close>, \<open>- 2 ^ 63\<close>): each query can return the negative
  value \<open>- 1\<close> as well as 0, so a negative marker is available beside 0 and the
  positive sizes, and the declared types do not confine results to unsigned values.
\<close>

theorem return_types_signed:
  assumes "td ''jint'' = Some \<lparr>bits = 32, is_signed = True\<rparr>"
      and "td ''jlong'' = Some \<lparr>bits = 64, is_signed = True\<rparr>"
  shows "map_option
           (map (\<lambda>ld. map_option (\<lambda>t. (is_signed t, int_min t)) (ret_int td (snd ld))))
           (compile L ixy_h) =
         Some [Some (True, - (2 ^ 31)), Some (True, - (2 ^ 31)), Some (True, - (2 ^ 63))]
       \<and> map_option (map (\<lambda>ld. can_return td (snd ld) (- 1))) (compile L ixy_h) =
           Some [True, True, True]
       \<and> map_option (map (\<lambda>ld. can_return td (snd ld) 0)) (compile L ixy_h) =
           Some [True, True, True]"
  using assms
  by (simp add: compile_ixy_h jni_proto_def ret_int_def can_return_def representable_def
        int_min_def int_max_def)

theorem return_types_signed_witness:
  "jni_md ''jint'' = Some \<lparr>bits = 32, is_signed = True\<rparr>
   \<and> jni_md ''jlong'' = Some \<lparr>bits = 64, is_signed = True\<rparr>
   \<and> map_option (map (\<lambda>ld. can_return jni_md (snd ld) (- 1))) (compile C ixy_h) =
       Some [True, True, True]"
proof -
  have a: "jni_md ''jint'' = Some \<lparr>bits = 32, is_signed = True\<rparr>"
    and b: "jni_md ''jlong'' = Some \<lparr>bits = 64, is_signed = True\<rparr>"
    by (simp_all add: jni_md_def)
  from return_types_signed [OF a b, of C] a b show ?thesis by simp
qed

section \<open>Properties of the address-size query\<close>

text \<open>
  C4. The address-size query returns the number of bytes of a native pointer of the
  build target, 4 on a 32-bit build and 8 on a 64-bit build, and never 0.
\<close>

theorem addrsize_pointer_width:
  "sint (c_addrsize h) = int (pointer_bytes (target h))
   \<and> c_addrsize (h\<lparr>target := Build32\<rparr>) = 4
   \<and> c_addrsize (h\<lparr>target := Build64\<rparr>) = 8
   \<and> c_addrsize h \<noteq> 0"
  by (cases "target h") (simp_all add: c_addrsize_def)

end
